theory Spec2Isabelle
  imports Main "HOL-Library.AList"
begin

section \<open>Healthcare backend: data model\<close>

text \<open>
  The views of \<^verbatim>\<open>api/views.py\<close> and the serializers of \<^verbatim>\<open>api/serializers.py\<close>,
  embedded as functions on an explicit store. The relational store is four tables, each a
  list of rows; a handler takes the store and returns the store after the request
  together with its outcome: a raised exception (\<open>Inl\<close>) or a response (\<open>Inr\<close>).

  Values a client supplies (JSON bodies, URL and query-string parts) are \<open>pyval\<close>s or
  strings; a dictionary is an association list read with \<open>map_of\<close>.
\<close>

datatype pyval = PyNone | PyInt int | PyStr string

type_synonym dict = "(string \<times> pyval) list"

type_synonym field_errors = "(string \<times> string) list"

text \<open>
  The exceptions a handler can leave unhandled. The framework's exception handler turns
  \<open>Http404\<close> into status 404 and a serializer's \<open>ValidationError\<close> (with its
  field-level detail) into status 400; every other exception is a status 500.
\<close>

datatype error =
    Http404
  | ValidationError field_errors
  | ValueError
  | KeyError string
  | ProtectedError
  | DjangoValidationError field_errors

record user =
  u_id :: int
  username :: string
  email :: string
  password :: string
  is_staff :: bool

text \<open>
  \<^verbatim>\<open>api/models.py\<close> is not among the sources. The fields the views and serializers
  name (\<open>user\<close>, \<open>patient\<close>, \<open>doctor\<close>, \<open>created_at\<close>, \<open>updated_at\<close>,
  \<open>assigned_date\<close>) are record fields; the remaining columns of a patient or a doctor
  (the demographic and professional attributes) are kept as a dictionary.
\<close>

record patient =
  p_id :: int
  p_user :: int
  p_fields :: dict
  p_created_at :: nat
  p_updated_at :: nat

record doctor =
  d_id :: int
  d_fields :: dict
  d_created_at :: nat
  d_updated_at :: nat

record mapping =
  m_id :: int
  m_patient :: int
  m_doctor :: int
  assigned_date :: nat

text \<open>
  The store: the four tables and, for each, the last primary key its sequence handed out.
\<close>

record store =
  users :: "user list"
  patients :: "patient list"
  doctors :: "doctor list"
  mappings :: "mapping list"
  seq_user :: int
  seq_patient :: int
  seq_doctor :: int
  seq_mapping :: int

definition empty_store :: store where
  "empty_store = \<lparr>users = [], patients = [], doctors = [], mappings = [],
     seq_user = 0, seq_patient = 0, seq_doctor = 0, seq_mapping = 0\<rparr>"

datatype payload =
    ErrorMsg string
  | UserData dict
  | UserListData "dict list"
  | PatientData patient
  | PatientListData "patient list"
  | DoctorData doctor
  | DoctorListData "doctor list"
  | MappingData mapping
  | MappingListData "mapping list"
  | NoContent

record response =
  status :: nat
  data :: payload

type_synonym outcome = "error + response"

definition HTTP_201_CREATED :: nat where "HTTP_201_CREATED = 201"
definition HTTP_200_OK :: nat where "HTTP_200_OK = 200"
definition HTTP_204_NO_CONTENT :: nat where "HTTP_204_NO_CONTENT = 204"
definition HTTP_400_BAD_REQUEST :: nat where "HTTP_400_BAD_REQUEST = 400"
definition HTTP_403_FORBIDDEN :: nat where "HTTP_403_FORBIDDEN = 403"

text \<open>The status line a client sees for an outcome.\<close>

fun http_status :: "outcome \<Rightarrow> nat" where
  "http_status (Inr r) = status r"
| "http_status (Inl Http404) = 404"
| "http_status (Inl (ValidationError es)) = 400"
| "http_status (Inl ValueError) = 500"
| "http_status (Inl (KeyError k)) = 500"
| "http_status (Inl ProtectedError) = 500"
| "http_status (Inl (DjangoValidationError es)) = 500"

subsection \<open>What the framework and the model declarations supply\<close>

datatype on_delete = CASCADE | PROTECT

text \<open>
  The parts the handlers call that are not in the sources are parameters:
  \<^item> \<open>int_of\<close>: Python's \<open>int\<close> on a string, by which the ORM coerces a primary-key
    lookup value (\<open>None\<close> where it raises \<open>ValueError\<close>);
  \<^item> \<open>make_password\<close>: the password hasher of \<open>create_user\<close>;
  \<^item> \<open>user_field_errors\<close>: the messages of a \<open>User\<close> field's own format validation
    for a value (field name, value);
  \<^item> \<open>patient_clean\<close>, \<open>doctor_clean\<close>: the model serializer's validation of the
    writable columns declared in \<^verbatim>\<open>models.py\<close>, which may consult the store and the
    instance being updated (none on a create; the flag is \<open>partial\<close>);
  \<^item> \<open>doctor_save_error\<close>: the message of the \<open>django.core\<close> \<open>ValidationError\<close>
    that saving a doctor raises, if the model's own \<open>save\<close> raises one;
  \<^item> the \<open>on_delete\<close> rule of each foreign key (\<open>CASCADE\<close> or \<open>PROTECT\<close>).
\<close>

record env =
  int_of :: "string \<Rightarrow> int option"
  make_password :: "string \<Rightarrow> string"
  user_field_errors :: "string \<Rightarrow> string \<Rightarrow> string list"
  patient_clean :: "store \<Rightarrow> patient option \<Rightarrow> bool \<Rightarrow> dict \<Rightarrow> field_errors + dict"
  doctor_clean :: "store \<Rightarrow> doctor option \<Rightarrow> bool \<Rightarrow> dict \<Rightarrow> field_errors + dict"
  doctor_save_error :: "store \<Rightarrow> dict \<Rightarrow> string option"
  patient_user_on_delete :: on_delete
  mapping_patient_on_delete :: on_delete
  mapping_doctor_on_delete :: on_delete

text \<open>
  The ORM's coercion of a lookup value for an integer primary key: \<open>None\<close> is SQL
  \<open>NULL\<close> (it matches no row), a string goes through \<open>int\<close>.
\<close>

fun get_prep_value :: "env \<Rightarrow> pyval \<Rightarrow> error + int option" where
  "get_prep_value E PyNone = Inr None"
| "get_prep_value E (PyInt n) = Inr (Some n)"
| "get_prep_value E (PyStr s) =
     (case int_of E s of None \<Rightarrow> Inl ValueError | Some n \<Rightarrow> Inr (Some n))"

text \<open>Python's truth value of an optional string: \<open>None\<close> and \<open>""\<close> are false.\<close>

fun truthy :: "string option \<Rightarrow> bool" where
  "truthy None = False"
| "truthy (Some s) = (s \<noteq> [])"

text \<open>
  \<open>Model.objects.get(pk=n)\<close> on a table: the row with that primary key.
\<close>

definition get_by_pk :: "('r \<Rightarrow> int) \<Rightarrow> 'r list \<Rightarrow> int option \<Rightarrow> 'r option" where
  "get_by_pk pk_of rows key =
     (case key of None \<Rightarrow> None | Some n \<Rightarrow> find (\<lambda>r. pk_of r = n) rows)"

text \<open>
  \<open>django.shortcuts.get_object_or_404(Model, id=v)\<close>: only \<open>DoesNotExist\<close> becomes
  \<open>Http404\<close>; a \<open>ValueError\<close> of the coercion passes through.
\<close>

definition get_object_or_404 ::
  "env \<Rightarrow> ('r \<Rightarrow> int) \<Rightarrow> 'r list \<Rightarrow> pyval \<Rightarrow> error + 'r" where
  "get_object_or_404 E pk_of rows v =
     (case get_prep_value E v of
        Inl e \<Rightarrow> Inl e
      | Inr key \<Rightarrow>
          (case get_by_pk pk_of rows key of None \<Rightarrow> Inl Http404 | Some r \<Rightarrow> Inr r))"

text \<open>
  \<open>GenericAPIView.get_object\<close> looks the URL's \<open>pk\<close> up in the view's queryset with
  the framework's own \<open>get_object_or_404\<close>, which turns a \<open>ValueError\<close> of the
  coercion into \<open>Http404\<close> as well.
\<close>

definition get_object :: "env \<Rightarrow> ('r \<Rightarrow> int) \<Rightarrow> 'r list \<Rightarrow> string \<Rightarrow> error + 'r" where
  "get_object E pk_of queryset pk =
     (case get_by_pk pk_of queryset (int_of E pk) of
        None \<Rightarrow> Inl Http404
      | Some r \<Rightarrow> Inr r)"

section \<open>Registration\<close>

text \<open>
  \<open>UserSerializer\<close>: fields \<open>id, username, email, password\<close>, the password declared
  write-only. \<open>id\<close> is read-only (the primary key). On \<open>django.contrib.auth\<close>'s
  \<open>User\<close>, \<open>username\<close> is required and unique and \<open>email\<close> is declared
  \<open>blank=True\<close>, which makes the serializer field optional; the declared
  \<open>password\<close> field is required. A request body is a parsed JSON object whose values
  are strings: a key that is not sent is not in the dictionary.
\<close>

type_synonym str_dict = "(string \<times> string) list"

definition required_field :: "env \<Rightarrow> bool \<Rightarrow> str_dict \<Rightarrow> string \<Rightarrow> field_errors" where
  "required_field E partial body k =
     (case map_of body k of
        None \<Rightarrow> if partial then [] else [(k, ''This field is required.'')]
      | Some v \<Rightarrow> map (\<lambda>msg. (k, msg)) (user_field_errors E k v))"

definition optional_field :: "env \<Rightarrow> str_dict \<Rightarrow> string \<Rightarrow> field_errors" where
  "optional_field E body k =
     (case map_of body k of
        None \<Rightarrow> []
      | Some v \<Rightarrow> map (\<lambda>msg. (k, msg)) (user_field_errors E k v))"

text \<open>
  The uniqueness validator of \<open>username\<close>: no other row (on an update, the instance
  itself is left out of the search) has the value.
\<close>

definition unique_username :: "store \<Rightarrow> user option \<Rightarrow> str_dict \<Rightarrow> field_errors" where
  "unique_username s instance body =
     (case map_of body ''username'' of
        None \<Rightarrow> []
      | Some v \<Rightarrow>
          if v \<in> set (map username
                 (filter (\<lambda>u. Some (u_id u) \<noteq> map_option u_id instance) (users s)))
          then [(''username'', ''A user with that username already exists.'')]
          else [])"

text \<open>
  \<open>is_valid\<close>: the errors of every field are collected; without errors the validated
  data holds the writable fields that were supplied. (\<open>instance\<close> and \<open>partial\<close> are
  those of the serializer: none and false on a create.)
\<close>

definition UserSerializer_is_valid ::
  "env \<Rightarrow> store \<Rightarrow> user option \<Rightarrow> bool \<Rightarrow> str_dict \<Rightarrow> field_errors + str_dict" where
  "UserSerializer_is_valid E s instance partial body =
     (let errors = required_field E partial body ''username'' @ unique_username s instance body
                 @ optional_field E body ''email''
                 @ required_field E partial body ''password''
      in if errors = []
         then Inr (List.map_filter (\<lambda>k. map_option (Pair k) (map_of body k))
                     [''username'', ''email'', ''password''])
         else Inl errors)"

text \<open>\<open>User.objects.create_user\<close>: the next primary key, the password hashed.\<close>

definition create_user :: "env \<Rightarrow> store \<Rightarrow> string \<Rightarrow> string \<Rightarrow> string \<Rightarrow> store \<times> user" where
  "create_user E s un em pw =
     (let u = \<lparr>u_id = seq_user s + 1, username = un, email = em,
                password = make_password E pw, is_staff = False\<rparr>
      in (s\<lparr>users := users s @ [u], seq_user := seq_user s + 1\<rparr>, u))"

text \<open>
  \<open>UserSerializer.create\<close> indexes the validated data: a key that is not there raises
  \<open>KeyError\<close>, the keyword arguments being evaluated in the order written.
\<close>

definition UserSerializer_create :: "env \<Rightarrow> store \<Rightarrow> str_dict \<Rightarrow> error + store \<times> user" where
  "UserSerializer_create E s validated_data =
     (case map_of validated_data ''username'' of
        None \<Rightarrow> Inl (KeyError ''username'')
      | Some un \<Rightarrow>
     (case map_of validated_data ''email'' of
        None \<Rightarrow> Inl (KeyError ''email'')
      | Some em \<Rightarrow>
     (case map_of validated_data ''password'' of
        None \<Rightarrow> Inl (KeyError ''password'')
      | Some pw \<Rightarrow> Inr (create_user E s un em pw))))"

text \<open>
  The representation of a user: the declared fields without the write-only one.
\<close>

definition UserSerializer_to_representation :: "user \<Rightarrow> dict" where
  "UserSerializer_to_representation u =
     [(''id'', PyInt (u_id u)), (''username'', PyStr (username u)), (''email'', PyStr (email u))]"

text \<open>
  \<open>RegisterView\<close> is a \<open>CreateAPIView\<close>: validate (raising on errors), save, answer
  201 with the representation of the saved user.
\<close>

definition RegisterView_create :: "env \<Rightarrow> store \<Rightarrow> str_dict \<Rightarrow> store \<times> outcome" where
  "RegisterView_create E s body =
     (case UserSerializer_is_valid E s None False body of
        Inl errors \<Rightarrow> (s, Inl (ValidationError errors))
      | Inr validated_data \<Rightarrow>
          (case UserSerializer_create E s validated_data of
             Inl e \<Rightarrow> (s, Inl e)
           | Inr (s', u) \<Rightarrow>
               (s', Inr \<lparr>status = HTTP_201_CREATED,
                         data = UserData (UserSerializer_to_representation u)\<rparr>)))"

section \<open>Patients\<close>

text \<open>
  \<open>PatientSerializer\<close>: all fields of the model, with \<open>user\<close>, \<open>created_at\<close> and
  \<open>updated_at\<close> read-only (and \<open>id\<close>, the primary key). A read-only field of the
  input is dropped before validation.
\<close>

definition PatientSerializer_read_only_fields :: "string list" where
  "PatientSerializer_read_only_fields = [''id'', ''user'', ''created_at'', ''updated_at'']"

definition writable :: "string list \<Rightarrow> dict \<Rightarrow> dict" where
  "writable ro d = filter (\<lambda>kv. fst kv \<notin> set ro) d"

definition PatientSerializer_is_valid ::
  "env \<Rightarrow> store \<Rightarrow> patient option \<Rightarrow> bool \<Rightarrow> dict \<Rightarrow> field_errors + dict" where
  "PatientSerializer_is_valid E s instance partial body =
     (case patient_clean E s instance partial
             (writable PatientSerializer_read_only_fields body) of
        Inl errors \<Rightarrow> Inl errors
      | Inr cleaned \<Rightarrow> Inr (writable PatientSerializer_read_only_fields cleaned))"

text \<open>\<open>get_queryset\<close>: \<open>Patient.objects.filter(user=self.request.user)\<close>.\<close>

definition PatientViewSet_get_queryset :: "store \<Rightarrow> int \<Rightarrow> patient list" where
  "PatientViewSet_get_queryset s request_user = filter (\<lambda>p. p_user p = request_user) (patients s)"

definition PatientViewSet_get_object :: "env \<Rightarrow> store \<Rightarrow> int \<Rightarrow> string \<Rightarrow> error + patient" where
  "PatientViewSet_get_object E s request_user pk =
     get_object E p_id (PatientViewSet_get_queryset s request_user) pk"

text \<open>The inherited \<open>list\<close>: the queryset, serialized, with status 200.\<close>

definition PatientViewSet_list :: "store \<Rightarrow> int \<Rightarrow> store \<times> outcome" where
  "PatientViewSet_list s request_user =
     (s, Inr \<lparr>status = HTTP_200_OK,
              data = PatientListData (PatientViewSet_get_queryset s request_user)\<rparr>)"

text \<open>The inherited \<open>retrieve\<close>: the object of the URL's \<open>pk\<close>, with status 200.\<close>

definition PatientViewSet_retrieve :: "env \<Rightarrow> store \<Rightarrow> int \<Rightarrow> string \<Rightarrow> store \<times> outcome" where
  "PatientViewSet_retrieve E s request_user pk =
     (case PatientViewSet_get_object E s request_user pk of
        Inl e \<Rightarrow> (s, Inl e)
      | Inr instance \<Rightarrow> (s, Inr \<lparr>status = HTTP_200_OK, data = PatientData instance\<rparr>))"

text \<open>
  \<open>perform_create\<close> is \<open>serializer.save(user=self.request.user)\<close>: the keyword argument
  is merged over the validated data and the row is inserted, with the next primary key
  and both timestamps set by the server.
\<close>

definition PatientViewSet_perform_create ::
  "store \<Rightarrow> int \<Rightarrow> nat \<Rightarrow> dict \<Rightarrow> store \<times> patient" where
  "PatientViewSet_perform_create s request_user now validated_data =
     (let p = \<lparr>p_id = seq_patient s + 1, p_user = request_user, p_fields = validated_data,
                p_created_at = now, p_updated_at = now\<rparr>
      in (s\<lparr>patients := patients s @ [p], seq_patient := seq_patient s + 1\<rparr>, p))"

text \<open>The inherited \<open>create\<close>: validate, \<open>perform_create\<close>, answer 201.\<close>

definition PatientViewSet_create :: "env \<Rightarrow> store \<Rightarrow> int \<Rightarrow> nat \<Rightarrow> dict \<Rightarrow> store \<times> outcome" where
  "PatientViewSet_create E s request_user now body =
     (case PatientSerializer_is_valid E s None False body of
        Inl errors \<Rightarrow> (s, Inl (ValidationError errors))
      | Inr validated_data \<Rightarrow>
          (case PatientViewSet_perform_create s request_user now validated_data of
             (s', p) \<Rightarrow> (s', Inr \<lparr>status = HTTP_201_CREATED, data = PatientData p\<rparr>)))"

text \<open>
  A model serializer's \<open>update\<close> sets every validated item on the instance and saves it:
  the row with the instance's primary key is replaced.
\<close>

definition dict_update :: "dict \<Rightarrow> dict \<Rightarrow> dict" where
  "dict_update d items = fold (\<lambda>kv. AList.update (fst kv) (snd kv)) items d"

definition save_patient :: "store \<Rightarrow> patient \<Rightarrow> store" where
  "save_patient s p = s\<lparr>patients := map (\<lambda>r. if p_id r = p_id p then p else r) (patients s)\<rparr>"

text \<open>
  \<open>UpdateModelMixin.update\<close> for the patient view set, the \<open>super().update\<close> of
  \<open>PatientViewSet.update\<close>: it looks the object up again, validates, saves and answers
  200. \<open>partial\<close> is set by a PATCH, which is routed through \<open>update\<close> as well.
\<close>

definition UpdateModelMixin_update_patient ::
  "env \<Rightarrow> store \<Rightarrow> int \<Rightarrow> nat \<Rightarrow> string \<Rightarrow> bool \<Rightarrow> dict \<Rightarrow> store \<times> outcome" where
  "UpdateModelMixin_update_patient E s request_user now pk partial body =
     (case PatientViewSet_get_object E s request_user pk of
        Inl e \<Rightarrow> (s, Inl e)
      | Inr instance \<Rightarrow>
          (case PatientSerializer_is_valid E s (Some instance) partial body of
             Inl errors \<Rightarrow> (s, Inl (ValidationError errors))
           | Inr validated_data \<Rightarrow>
               (let p = instance\<lparr>p_fields := dict_update (p_fields instance) validated_data,
                                 p_updated_at := now\<rparr>
                in (save_patient s p, Inr \<lparr>status = HTTP_200_OK, data = PatientData p\<rparr>))))"

definition PatientViewSet_update ::
  "env \<Rightarrow> store \<Rightarrow> int \<Rightarrow> nat \<Rightarrow> string \<Rightarrow> bool \<Rightarrow> dict \<Rightarrow> store \<times> outcome" where
  "PatientViewSet_update E s request_user now pk partial body =
     (case PatientViewSet_get_object E s request_user pk of
        Inl e \<Rightarrow> (s, Inl e)
      | Inr patient \<Rightarrow>
          if p_user patient \<noteq> request_user
          then (s, Inr \<lparr>status = HTTP_403_FORBIDDEN,
                        data = ErrorMsg ''You do not have permission to update this patient.''\<rparr>)
          else UpdateModelMixin_update_patient E s request_user now pk partial body)"

text \<open>
  The inherited \<open>destroy\<close>: look the object up, delete it, answer 204. Deleting a
  patient follows the mapping's foreign key by its \<open>on_delete\<close> rule.
\<close>

definition delete_patients :: "env \<Rightarrow> store \<Rightarrow> int list \<Rightarrow> error + store" where
  "delete_patients E s ids =
     (if mapping_patient_on_delete E = PROTECT
         \<and> filter (\<lambda>m. m_patient m \<in> set ids) (mappings s) \<noteq> []
      then Inl ProtectedError
      else Inr (s\<lparr>patients := filter (\<lambda>p. p_id p \<notin> set ids) (patients s),
                  mappings := filter (\<lambda>m. m_patient m \<notin> set ids) (mappings s)\<rparr>))"

definition PatientViewSet_destroy :: "env \<Rightarrow> store \<Rightarrow> int \<Rightarrow> string \<Rightarrow> store \<times> outcome" where
  "PatientViewSet_destroy E s request_user pk =
     (case PatientViewSet_get_object E s request_user pk of
        Inl e \<Rightarrow> (s, Inl e)
      | Inr instance \<Rightarrow>
          (case delete_patients E s [p_id instance] of
             Inl e \<Rightarrow> (s, Inl e)
           | Inr s' \<Rightarrow> (s', Inr \<lparr>status = HTTP_204_NO_CONTENT, data = NoContent\<rparr>)))"

section \<open>Doctors\<close>

text \<open>
  \<open>DoctorViewSet\<close>: the queryset is every doctor, for any authenticated caller.
  \<open>DoctorSerializer\<close> has \<open>created_at\<close> and \<open>updated_at\<close> read-only.
\<close>

definition DoctorSerializer_read_only_fields :: "string list" where
  "DoctorSerializer_read_only_fields = [''id'', ''created_at'', ''updated_at'']"

definition DoctorSerializer_is_valid ::
  "env \<Rightarrow> store \<Rightarrow> doctor option \<Rightarrow> bool \<Rightarrow> dict \<Rightarrow> field_errors + dict" where
  "DoctorSerializer_is_valid E s instance partial body =
     (case doctor_clean E s instance partial
             (writable DoctorSerializer_read_only_fields body) of
        Inl errors \<Rightarrow> Inl errors
      | Inr cleaned \<Rightarrow> Inr (writable DoctorSerializer_read_only_fields cleaned))"

definition DoctorViewSet_list :: "store \<Rightarrow> store \<times> outcome" where
  "DoctorViewSet_list s = (s, Inr \<lparr>status = HTTP_200_OK, data = DoctorListData (doctors s)\<rparr>)"

definition DoctorViewSet_retrieve :: "env \<Rightarrow> store \<Rightarrow> string \<Rightarrow> store \<times> outcome" where
  "DoctorViewSet_retrieve E s pk =
     (case get_object E d_id (doctors s) pk of
        Inl e \<Rightarrow> (s, Inl e)
      | Inr instance \<Rightarrow> (s, Inr \<lparr>status = HTTP_200_OK, data = DoctorData instance\<rparr>))"

text \<open>
  \<open>perform_create\<close> saves; a \<open>ValidationError\<close> of \<open>django.core.exceptions\<close> raised by
  the save is raised again as one carrying \<open>{'error': str(e)}\<close>.
\<close>

definition DoctorViewSet_perform_create ::
  "env \<Rightarrow> store \<Rightarrow> nat \<Rightarrow> dict \<Rightarrow> error + store \<times> doctor" where
  "DoctorViewSet_perform_create E s now validated_data =
     (case doctor_save_error E s validated_data of
        Some msg \<Rightarrow> Inl (DjangoValidationError [(''error'', msg)])
      | None \<Rightarrow>
          (let d = \<lparr>d_id = seq_doctor s + 1, d_fields = validated_data,
                     d_created_at = now, d_updated_at = now\<rparr>
           in Inr (s\<lparr>doctors := doctors s @ [d], seq_doctor := seq_doctor s + 1\<rparr>, d)))"

definition DoctorViewSet_create :: "env \<Rightarrow> store \<Rightarrow> nat \<Rightarrow> dict \<Rightarrow> store \<times> outcome" where
  "DoctorViewSet_create E s now body =
     (case DoctorSerializer_is_valid E s None False body of
        Inl errors \<Rightarrow> (s, Inl (ValidationError errors))
      | Inr validated_data \<Rightarrow>
          (case DoctorViewSet_perform_create E s now validated_data of
             Inl e \<Rightarrow> (s, Inl e)
           | Inr (s', d) \<Rightarrow> (s', Inr \<lparr>status = HTTP_201_CREATED, data = DoctorData d\<rparr>)))"

definition save_doctor :: "store \<Rightarrow> doctor \<Rightarrow> store" where
  "save_doctor s d = s\<lparr>doctors := map (\<lambda>r. if d_id r = d_id d then d else r) (doctors s)\<rparr>"

definition DoctorViewSet_update ::
  "env \<Rightarrow> store \<Rightarrow> nat \<Rightarrow> string \<Rightarrow> bool \<Rightarrow> dict \<Rightarrow> store \<times> outcome" where
  "DoctorViewSet_update E s now pk partial body =
     (case get_object E d_id (doctors s) pk of
        Inl e \<Rightarrow> (s, Inl e)
      | Inr instance \<Rightarrow>
          (case DoctorSerializer_is_valid E s (Some instance) partial body of
             Inl errors \<Rightarrow> (s, Inl (ValidationError errors))
           | Inr validated_data \<Rightarrow>
               (let d = instance\<lparr>d_fields := dict_update (d_fields instance) validated_data,
                                 d_updated_at := now\<rparr>
                in (save_doctor s d, Inr \<lparr>status = HTTP_200_OK, data = DoctorData d\<rparr>))))"

definition delete_doctors :: "env \<Rightarrow> store \<Rightarrow> int list \<Rightarrow> error + store" where
  "delete_doctors E s ids =
     (if mapping_doctor_on_delete E = PROTECT
         \<and> filter (\<lambda>m. m_doctor m \<in> set ids) (mappings s) \<noteq> []
      then Inl ProtectedError
      else Inr (s\<lparr>doctors := filter (\<lambda>d. d_id d \<notin> set ids) (doctors s),
                  mappings := filter (\<lambda>m. m_doctor m \<notin> set ids) (mappings s)\<rparr>))"

definition DoctorViewSet_destroy :: "env \<Rightarrow> store \<Rightarrow> string \<Rightarrow> store \<times> outcome" where
  "DoctorViewSet_destroy E s pk =
     (case get_object E d_id (doctors s) pk of
        Inl e \<Rightarrow> (s, Inl e)
      | Inr instance \<Rightarrow>
          (case delete_doctors E s [d_id instance] of
             Inl e \<Rightarrow> (s, Inl e)
           | Inr s' \<Rightarrow> (s', Inr \<lparr>status = HTTP_204_NO_CONTENT, data = NoContent\<rparr>)))"

section \<open>Patient-doctor mappings\<close>

text \<open>
  \<open>PatientDoctorMappingSerializer\<close>: all fields, \<open>assigned_date\<close> read-only. The
  \<open>patient\<close> and \<open>doctor\<close> fields are primary-key related fields: required, not null,
  and the key must be that of an existing row.
\<close>

definition related_field ::
  "env \<Rightarrow> string \<Rightarrow> ('r \<Rightarrow> int) \<Rightarrow> 'r list \<Rightarrow> dict \<Rightarrow> field_errors + int" where
  "related_field E k pk_of rows body =
     (case map_of body k of
        None \<Rightarrow> Inl [(k, ''This field is required.'')]
      | Some PyNone \<Rightarrow> Inl [(k, ''This field may not be null.'')]
      | Some v \<Rightarrow>
          (case get_prep_value E v of
             Inl e \<Rightarrow> Inl [(k, ''Incorrect type. Expected pk value.'')]
           | Inr key \<Rightarrow>
               (case get_by_pk pk_of rows key of
                  None \<Rightarrow> Inl [(k, ''Invalid pk - object does not exist.'')]
                | Some r \<Rightarrow> Inr (pk_of r))))"

definition PatientDoctorMappingSerializer_is_valid ::
  "env \<Rightarrow> store \<Rightarrow> dict \<Rightarrow> field_errors + int \<times> int" where
  "PatientDoctorMappingSerializer_is_valid E s body =
     (case (related_field E ''patient'' p_id (patients s) body,
            related_field E ''doctor'' d_id (doctors s) body) of
        (Inr p, Inr d) \<Rightarrow> Inr (p, d)
      | (Inl ep, Inr d) \<Rightarrow> Inl ep
      | (Inr p, Inl ed) \<Rightarrow> Inl ed
      | (Inl ep, Inl ed) \<Rightarrow> Inl (ep @ ed))"

text \<open>
  \<open>patient__user\<close>: the owner of the patient a mapping refers to, through the join on the
  patient's primary key.
\<close>

definition patient__user :: "store \<Rightarrow> mapping \<Rightarrow> int option" where
  "patient__user s m = map_option p_user (get_by_pk p_id (patients s) (Some (m_patient m)))"

text \<open>
  \<open>get_queryset\<close>. \<open>select_related\<close> only fetches the related rows along; the rows of
  the queryset are the mappings. \<open>patient_id\<close> is the query parameter of that name,
  \<open>None\<close> when the query string has none; it is tested for truth, and as a lookup value
  it is coerced to the key's type.
\<close>

definition PatientDoctorMappingViewSet_get_queryset ::
  "env \<Rightarrow> store \<Rightarrow> int \<Rightarrow> string option \<Rightarrow> error + mapping list" where
  "PatientDoctorMappingViewSet_get_queryset E s request_user patient_id =
     (let base_queryset = mappings s in
      case patient_id of
        Some v \<Rightarrow>
          if truthy patient_id
          then (case get_prep_value E (PyStr v) of
                  Inl e \<Rightarrow> Inl e
                | Inr key \<Rightarrow>
                    Inr (filter (\<lambda>m. Some (m_patient m) = key
                                     \<and> patient__user s m = Some request_user) base_queryset))
          else Inr (filter (\<lambda>m. patient__user s m = Some request_user) base_queryset)
      | None \<Rightarrow> Inr (filter (\<lambda>m. patient__user s m = Some request_user) base_queryset))"

definition PatientDoctorMappingViewSet_get_object ::
  "env \<Rightarrow> store \<Rightarrow> int \<Rightarrow> string option \<Rightarrow> string \<Rightarrow> error + mapping" where
  "PatientDoctorMappingViewSet_get_object E s request_user patient_id pk =
     (case PatientDoctorMappingViewSet_get_queryset E s request_user patient_id of
        Inl e \<Rightarrow> Inl e
      | Inr queryset \<Rightarrow> get_object E m_id queryset pk)"

definition PatientDoctorMappingViewSet_list ::
  "env \<Rightarrow> store \<Rightarrow> int \<Rightarrow> string option \<Rightarrow> store \<times> outcome" where
  "PatientDoctorMappingViewSet_list E s request_user patient_id =
     (case PatientDoctorMappingViewSet_get_queryset E s request_user patient_id of
        Inl e \<Rightarrow> (s, Inl e)
      | Inr queryset \<Rightarrow> (s, Inr \<lparr>status = HTTP_200_OK, data = MappingListData queryset\<rparr>))"

text \<open>
  \<open>CreateModelMixin.create\<close> for the mapping view set, the \<open>super().create\<close> of
  \<open>PatientDoctorMappingViewSet.create\<close>: validate, insert the row with the next primary
  key and the server's time as \<open>assigned_date\<close>, answer 201.
\<close>

definition CreateModelMixin_create_mapping ::
  "env \<Rightarrow> store \<Rightarrow> nat \<Rightarrow> dict \<Rightarrow> store \<times> outcome" where
  "CreateModelMixin_create_mapping E s now body =
     (case PatientDoctorMappingSerializer_is_valid E s body of
        Inl errors \<Rightarrow> (s, Inl (ValidationError errors))
      | Inr (p, d) \<Rightarrow>
          (let m = \<lparr>m_id = seq_mapping s + 1, m_patient = p, m_doctor = d, assigned_date = now\<rparr>
           in (s\<lparr>mappings := mappings s @ [m], seq_mapping := seq_mapping s + 1\<rparr>,
               Inr \<lparr>status = HTTP_201_CREATED, data = MappingData m\<rparr>)))"

text \<open>\<open>request.data.get(k)\<close>: \<open>None\<close> for a key that is not there.\<close>

definition data_get :: "dict \<Rightarrow> string \<Rightarrow> pyval" where
  "data_get body k = (case map_of body k of None \<Rightarrow> PyNone | Some v \<Rightarrow> v)"

text \<open>
  \<open>filter(patient_id=..., doctor_id=...).exists()\<close>, both lookup values coerced to the
  key's type.
\<close>

definition mapping_exists :: "store \<Rightarrow> int option \<Rightarrow> int option \<Rightarrow> bool" where
  "mapping_exists s patient_key doctor_key =
     (filter (\<lambda>m. Some (m_patient m) = patient_key \<and> Some (m_doctor m) = doctor_key)
        (mappings s) \<noteq> [])"

definition PatientDoctorMappingViewSet_create ::
  "env \<Rightarrow> store \<Rightarrow> int \<Rightarrow> nat \<Rightarrow> dict \<Rightarrow> store \<times> outcome" where
  "PatientDoctorMappingViewSet_create E s request_user now body =
     (let patient_id = data_get body ''patient'';
          doctor_id = data_get body ''doctor''
      in case get_object_or_404 E p_id (patients s) patient_id of
           Inl e \<Rightarrow> (s, Inl e)
         | Inr patient \<Rightarrow>
             if p_user patient \<noteq> request_user
             then (s, Inr \<lparr>status = HTTP_403_FORBIDDEN,
                           data = ErrorMsg ''You do not have permission to assign this patient.''\<rparr>)
             else
               (case get_object_or_404 E d_id (doctors s) doctor_id of
                  Inl e \<Rightarrow> (s, Inl e)
                | Inr doctor \<Rightarrow>
                    (case (get_prep_value E patient_id, get_prep_value E doctor_id) of
                       (Inr patient_key, Inr doctor_key) \<Rightarrow>
                         if mapping_exists s patient_key doctor_key
                         then (s, Inr \<lparr>status = HTTP_400_BAD_REQUEST,
                                       data = ErrorMsg ''This patient is already assigned to this doctor.''\<rparr>)
                         else CreateModelMixin_create_mapping E s now body
                     | (Inl e, _) \<Rightarrow> (s, Inl e)
                     | (_, Inl e) \<Rightarrow> (s, Inl e))))"

text \<open>
  \<open>DestroyModelMixin.destroy\<close> for the mapping view set, the \<open>super().destroy\<close> of
  \<open>PatientDoctorMappingViewSet.destroy\<close>: look the object up again, delete the row with
  its primary key, answer 204.
\<close>

definition DestroyModelMixin_destroy_mapping ::
  "env \<Rightarrow> store \<Rightarrow> int \<Rightarrow> string option \<Rightarrow> string \<Rightarrow> store \<times> outcome" where
  "DestroyModelMixin_destroy_mapping E s request_user patient_id pk =
     (case PatientDoctorMappingViewSet_get_object E s request_user patient_id pk of
        Inl e \<Rightarrow> (s, Inl e)
      | Inr instance \<Rightarrow>
          (s\<lparr>mappings := filter (\<lambda>m. m_id m \<noteq> m_id instance) (mappings s)\<rparr>,
           Inr \<lparr>status = HTTP_204_NO_CONTENT, data = NoContent\<rparr>))"

definition PatientDoctorMappingViewSet_destroy ::
  "env \<Rightarrow> store \<Rightarrow> int \<Rightarrow> string option \<Rightarrow> string \<Rightarrow> store \<times> outcome" where
  "PatientDoctorMappingViewSet_destroy E s request_user patient_id pk =
     (case PatientDoctorMappingViewSet_get_object E s request_user patient_id pk of
        Inl e \<Rightarrow> (s, Inl e)
      | Inr mapping \<Rightarrow>
          if patient__user s mapping \<noteq> Some request_user
          then (s, Inr \<lparr>status = HTTP_403_FORBIDDEN,
                        data = ErrorMsg ''You do not have permission to remove this mapping.''\<rparr>)
          else DestroyModelMixin_destroy_mapping E s request_user patient_id pk)"

section \<open>Users\<close>

text \<open>
  \<open>UserViewSet\<close> allows any caller, so \<open>request.user\<close> is a user row or the anonymous
  user (\<open>None\<close>: not staff, and with \<open>id\<close> \<open>None\<close>, which matches no row).
\<close>

definition UserViewSet_get_queryset :: "store \<Rightarrow> user option \<Rightarrow> user list" where
  "UserViewSet_get_queryset s request_user =
     (case request_user of
        None \<Rightarrow> []
      | Some u \<Rightarrow> if is_staff u then users s else filter (\<lambda>r. u_id r = u_id u) (users s))"

definition UserViewSet_list :: "store \<Rightarrow> user option \<Rightarrow> store \<times> outcome" where
  "UserViewSet_list s request_user =
     (s, Inr \<lparr>status = HTTP_200_OK,
              data = UserListData (map UserSerializer_to_representation
                                     (UserViewSet_get_queryset s request_user))\<rparr>)"

definition UserViewSet_retrieve ::
  "env \<Rightarrow> store \<Rightarrow> user option \<Rightarrow> string \<Rightarrow> store \<times> outcome" where
  "UserViewSet_retrieve E s request_user pk =
     (case get_object E u_id (UserViewSet_get_queryset s request_user) pk of
        Inl e \<Rightarrow> (s, Inl e)
      | Inr instance \<Rightarrow>
          (s, Inr \<lparr>status = HTTP_200_OK,
                   data = UserData (UserSerializer_to_representation instance)\<rparr>))"

text \<open>
  The inherited \<open>update\<close>. \<open>UserSerializer\<close> declares no \<open>update\<close>, so the model
  serializer's sets each validated item on the instance, the password as it was sent.
\<close>

definition set_item :: "str_dict \<Rightarrow> string \<Rightarrow> string \<Rightarrow> string" where
  "set_item validated_data k old = (case map_of validated_data k of None \<Rightarrow> old | Some v \<Rightarrow> v)"

definition UserViewSet_update ::
  "env \<Rightarrow> store \<Rightarrow> user option \<Rightarrow> string \<Rightarrow> bool \<Rightarrow> str_dict \<Rightarrow> store \<times> outcome" where
  "UserViewSet_update E s request_user pk partial body =
     (case get_object E u_id (UserViewSet_get_queryset s request_user) pk of
        Inl e \<Rightarrow> (s, Inl e)
      | Inr instance \<Rightarrow>
          (case UserSerializer_is_valid E s (Some instance) partial body of
             Inl errors \<Rightarrow> (s, Inl (ValidationError errors))
           | Inr validated_data \<Rightarrow>
               (let u = instance\<lparr>username := set_item validated_data ''username'' (username instance),
                                 email := set_item validated_data ''email'' (email instance),
                                 password := set_item validated_data ''password'' (password instance)\<rparr>
                in (s\<lparr>users := map (\<lambda>r. if u_id r = u_id u then u else r) (users s)\<rparr>,
                    Inr \<lparr>status = HTTP_200_OK,
                         data = UserData (UserSerializer_to_representation u)\<rparr>))))"

text \<open>
  The inherited \<open>destroy\<close>: the user's patients follow by the \<open>on_delete\<close> rule of
  \<open>Patient.user\<close>, and their mappings by that of \<open>PatientDoctorMapping.patient\<close>.
\<close>

definition delete_users :: "env \<Rightarrow> store \<Rightarrow> int list \<Rightarrow> error + store" where
  "delete_users E s ids =
     (let owned = filter (\<lambda>p. p_user p \<in> set ids) (patients s) in
      if patient_user_on_delete E = PROTECT \<and> owned \<noteq> []
      then Inl ProtectedError
      else (case delete_patients E s (map p_id owned) of
              Inl e \<Rightarrow> Inl e
            | Inr s' \<Rightarrow> Inr (s'\<lparr>users := filter (\<lambda>u. u_id u \<notin> set ids) (users s')\<rparr>)))"

definition UserViewSet_destroy ::
  "env \<Rightarrow> store \<Rightarrow> user option \<Rightarrow> string \<Rightarrow> store \<times> outcome" where
  "UserViewSet_destroy E s request_user pk =
     (case get_object E u_id (UserViewSet_get_queryset s request_user) pk of
        Inl e \<Rightarrow> (s, Inl e)
      | Inr instance \<Rightarrow>
          (case delete_users E s [u_id instance] of
             Inl e \<Rightarrow> (s, Inl e)
           | Inr s' \<Rightarrow> (s', Inr \<lparr>status = HTTP_204_NO_CONTENT, data = NoContent\<rparr>)))"

section \<open>The service, one request at a time\<close>

text \<open>
  Modelled from the spec: the routes. \<^verbatim>\<open>urls.py\<close> is not among the sources; section 6
  of the specification gives the surface: registration; list, retrieve, update and delete
  of users; create, list, retrieve, update and delete of patients and of doctors; list,
  create and delete of mappings. A request names its route with the authenticated caller
  (for the user routes, the caller's row or none), the server's time where a row is
  written, and what the client sent.
\<close>

datatype request =
    Register str_dict
  | UserList "user option"
  | UserRetrieve "user option" string
  | UserUpdate "user option" string bool str_dict
  | UserDestroy "user option" string
  | PatientList int
  | PatientRetrieve int string
  | PatientCreate int nat dict
  | PatientUpdate int nat string bool dict
  | PatientDestroy int string
  | DoctorList
  | DoctorRetrieve string
  | DoctorCreate nat dict
  | DoctorUpdate nat string bool dict
  | DoctorDestroy string
  | MappingList int "string option"
  | MappingCreate int nat dict
  | MappingDestroy int "string option" string

fun handle :: "env \<Rightarrow> store \<Rightarrow> request \<Rightarrow> store \<times> outcome" where
  "handle E s (Register body) = RegisterView_create E s body"
| "handle E s (UserList u) = UserViewSet_list s u"
| "handle E s (UserRetrieve u pk) = UserViewSet_retrieve E s u pk"
| "handle E s (UserUpdate u pk partial body) = UserViewSet_update E s u pk partial body"
| "handle E s (UserDestroy u pk) = UserViewSet_destroy E s u pk"
| "handle E s (PatientList u) = PatientViewSet_list s u"
| "handle E s (PatientRetrieve u pk) = PatientViewSet_retrieve E s u pk"
| "handle E s (PatientCreate u now body) = PatientViewSet_create E s u now body"
| "handle E s (PatientUpdate u now pk partial body) = PatientViewSet_update E s u now pk partial body"
| "handle E s (PatientDestroy u pk) = PatientViewSet_destroy E s u pk"
| "handle E s DoctorList = DoctorViewSet_list s"
| "handle E s (DoctorRetrieve pk) = DoctorViewSet_retrieve E s pk"
| "handle E s (DoctorCreate now body) = DoctorViewSet_create E s now body"
| "handle E s (DoctorUpdate now pk partial body) = DoctorViewSet_update E s now pk partial body"
| "handle E s (DoctorDestroy pk) = DoctorViewSet_destroy E s pk"
| "handle E s (MappingList u patient_id) = PatientDoctorMappingViewSet_list E s u patient_id"
| "handle E s (MappingCreate u now body) = PatientDoctorMappingViewSet_create E s u now body"
| "handle E s (MappingDestroy u patient_id pk) = PatientDoctorMappingViewSet_destroy E s u patient_id pk"


text \<open>A state is reachable when some sequence of requests leads to it from the empty store.\<close>

inductive reachable :: "env \<Rightarrow> store \<Rightarrow> bool" for E :: env where
  initial: "reachable E empty_store"
| step: "reachable E s \<Longrightarrow> reachable E (fst (handle E s r))"



text \<open>
  The primary keys of the patient and the mapping table: distinct, and none beyond the
  last one its sequence handed out.
\<close>

definition pks_ok :: "store \<Rightarrow> bool" where
  "pks_ok s \<longleftrightarrow>
     distinct (map p_id (patients s)) \<and> (\<forall>p \<in> set (patients s). p_id p \<le> seq_patient s)
     \<and> distinct (map m_id (mappings s)) \<and> (\<forall>m \<in> set (mappings s). m_id m \<le> seq_mapping s)"

section \<open>A small instance\<close>

text \<open>
  An environment and a store to evaluate the handlers on: two users, a patient of each, one
  doctor, and the mapping of the first user's patient to the doctor.
\<close>

definition env0 :: env where
  "env0 = \<lparr>int_of = (\<lambda>s. if s = ''1'' then Some 1 else if s = ''2'' then Some 2 else None),
     make_password = (\<lambda>p. ''#'' @ p),
     user_field_errors =
       (\<lambda>k v. if v = [] \<and> k \<noteq> ''email'' then [''This field may not be blank.''] else []),
     patient_clean = (\<lambda>s instance partial d. Inr d),
     doctor_clean = (\<lambda>s instance partial d. Inr d),
     doctor_save_error = (\<lambda>s d. None),
     patient_user_on_delete = CASCADE,
     mapping_patient_on_delete = CASCADE,
     mapping_doctor_on_delete = CASCADE\<rparr>"

definition patient1 :: patient where
  "patient1 = \<lparr>p_id = 1, p_user = 1, p_fields = [(''name'', PyStr ''P1'')],
     p_created_at = 10, p_updated_at = 10\<rparr>"

definition patient2 :: patient where
  "patient2 = \<lparr>p_id = 2, p_user = 2, p_fields = [(''name'', PyStr ''P2'')],
     p_created_at = 11, p_updated_at = 11\<rparr>"

definition mapping1 :: mapping where
  "mapping1 = \<lparr>m_id = 1, m_patient = 1, m_doctor = 1, assigned_date = 13\<rparr>"

definition store1 :: store where
  "store1 = \<lparr>users =
      [\<lparr>u_id = 1, username = ''alice'', email = ''a@x'', password = ''#pw'', is_staff = False\<rparr>,
       \<lparr>u_id = 2, username = ''bob'', email = ''b@x'', password = ''#pw'', is_staff = False\<rparr>],
     patients = [patient1, patient2],
     doctors = [\<lparr>d_id = 1, d_fields = [(''name'', PyStr ''D'')],
                  d_created_at = 12, d_updated_at = 12\<rparr>],
     mappings = [mapping1],
     seq_user = 2, seq_patient = 2, seq_doctor = 1, seq_mapping = 1\<rparr>"


lemmas example_defs = env0_def store1_def patient1_def patient2_def mapping1_def

section \<open>Lookups and querysets\<close>

lemma find_pk_iff:
  "distinct (map pk_of rows) \<Longrightarrow>
     find (\<lambda>r. pk_of r = n) rows = Some r \<longleftrightarrow> r \<in> set rows \<and> pk_of r = n"
  by (induction rows) (auto simp: rev_image_eqI)

text \<open>
  With distinct primary keys, \<open>patient__user\<close> is the owner of the one patient row the
  mapping refers to.
\<close>

lemma patient__user_iff:
  "distinct (map p_id (patients s)) \<Longrightarrow>
     patient__user s m = Some u
       \<longleftrightarrow> (\<exists>p \<in> set (patients s). p_id p = m_patient m \<and> p_user p = u)"
  using find_pk_iff[of p_id "patients s" "m_patient m"]
  by (fastforce simp: patient__user_def get_by_pk_def)

lemma get_queryset_falsy:
  "\<not> truthy q \<Longrightarrow> PatientDoctorMappingViewSet_get_queryset E s u q
      = Inr (filter (\<lambda>m. patient__user s m = Some u) (mappings s))"
  by (cases q) (auto simp: PatientDoctorMappingViewSet_get_queryset_def)

lemma get_queryset_numeric:
  "v \<noteq> [] \<Longrightarrow> int_of E v = Some n \<Longrightarrow>
     PatientDoctorMappingViewSet_get_queryset E s u (Some v)
       = Inr (filter (\<lambda>m. m_patient m = n \<and> patient__user s m = Some u) (mappings s))"
  by (auto simp: PatientDoctorMappingViewSet_get_queryset_def)


lemma get_queryset_scoped:
  "PatientDoctorMappingViewSet_get_queryset E s u q = Inr ms \<Longrightarrow> m \<in> set ms
     \<Longrightarrow> m \<in> set (mappings s) \<and> patient__user s m = Some u"
  by (auto simp: PatientDoctorMappingViewSet_get_queryset_def Let_def
      split: option.splits if_splits sum.splits)

section \<open>Reading the collections\<close>

text \<open>
  C5. A GET on the patient collection by caller \<open>u\<close> answers 200 with a list that holds a
  patient exactly when the patient is in the store and its owner is \<open>u\<close>.
\<close>

theorem patient_list_iff_owner:
  "\<exists>ps. PatientViewSet_list s u = (s, Inr \<lparr>status = 200, data = PatientListData ps\<rparr>)
        \<and> (\<forall>p. p \<in> set ps \<longleftrightarrow> p \<in> set (patients s) \<and> p_user p = u)"
  by (auto simp: PatientViewSet_list_def PatientViewSet_get_queryset_def HTTP_200_OK_def)



section \<open>Creating a patient\<close>

lemma writable_without:
  "k \<in> set ro \<Longrightarrow> writable ro (filter (\<lambda>kv. fst kv \<noteq> k) body) = writable ro body"
  by (induction body) (auto simp: writable_def)

text \<open>
  C7. A patient-create request by caller \<open>u\<close> that succeeds appends one patient whose
  owner is \<open>u\<close>; and \<open>user\<close> entries in the request body change nothing: the
  request has the result of the request with these entries taken out.
\<close>

theorem patient_create_owner:
  "(\<forall>s' r. PatientViewSet_create E s u now body = (s', Inr r) \<longrightarrow>
      (\<exists>p. patients s' = patients s @ [p] \<and> p_user p = u
           \<and> r = \<lparr>status = 201, data = PatientData p\<rparr>))
   \<and> PatientViewSet_create E s u now body
       = PatientViewSet_create E s u now (filter (\<lambda>kv. fst kv \<noteq> ''user'') body)"
proof -
  have "PatientSerializer_is_valid E s None False (filter (\<lambda>kv. fst kv \<noteq> ''user'') body)
      = PatientSerializer_is_valid E s None False body"
    using writable_without[of "''user''" PatientSerializer_read_only_fields body]
    by (simp add: PatientSerializer_is_valid_def PatientSerializer_read_only_fields_def)
  then show ?thesis
    by (auto simp: PatientViewSet_create_def PatientViewSet_perform_create_def
        HTTP_201_CREATED_def Let_def split: sum.splits)
qed

theorem patient_create_owner_witness:
  "\<exists>p. PatientViewSet_create env0 store1 1 20 [(''user'', PyInt 2), (''name'', PyStr ''N'')]
         = (store1\<lparr>patients := patients store1 @ [p], seq_patient := 3\<rparr>,
            Inr \<lparr>status = 201, data = PatientData p\<rparr>) \<and> p_user p = 1"
  using patient_create_owner[of env0 store1 1 20 "[(''user'', PyInt 2), (''name'', PyStr ''N'')]"]
  by (simp add: example_defs PatientViewSet_create_def PatientViewSet_perform_create_def
      PatientSerializer_is_valid_def PatientSerializer_read_only_fields_def writable_def
      HTTP_201_CREATED_def Let_def)

section \<open>Registration: validation, creation, representation\<close>




lemma validated_data_lookup:
  "UserSerializer_is_valid E s inst partial body = Inr vd \<Longrightarrow>
     k \<in> {''username'', ''email'', ''password''} \<Longrightarrow> map_of vd k = map_of body k"
  by (auto simp: UserSerializer_is_valid_def Let_def List.map_filter_simps
      split: if_splits option.splits)

lemma register_success:
  assumes "RegisterView_create E s body = (s', Inr r)"
  shows "\<exists>un em pw. map_of body ''username'' = Some un \<and> map_of body ''email'' = Some em
           \<and> map_of body ''password'' = Some pw
           \<and> un \<notin> set (map username (users s))
           \<and> s' = s\<lparr>users := users s @ [\<lparr>u_id = seq_user s + 1, username = un, email = em,
                          password = make_password E pw, is_staff = False\<rparr>],
                     seq_user := seq_user s + 1\<rparr>
           \<and> r = \<lparr>status = 201, data = UserData [(''id'', PyInt (seq_user s + 1)),
                    (''username'', PyStr un), (''email'', PyStr em)]\<rparr>"
proof -
  from assms obtain vd where vd: "UserSerializer_is_valid E s None False body = Inr vd"
    by (auto simp: RegisterView_create_def split: sum.splits)
  have look: "map_of vd ''username'' = map_of body ''username''"
    "map_of vd ''email'' = map_of body ''email''"
    "map_of vd ''password'' = map_of body ''password''"
    using validated_data_lookup[OF vd] by simp_all
  have uniq: "\<And>un. map_of body ''username'' = Some un \<Longrightarrow> un \<notin> set (map username (users s))"
    using vd by (auto simp: UserSerializer_is_valid_def Let_def unique_username_def
        split: if_splits option.splits)
  show ?thesis
    using assms vd look uniq
    by (auto simp: RegisterView_create_def UserSerializer_create_def create_user_def Let_def
        UserSerializer_to_representation_def HTTP_201_CREATED_def
        split: sum.splits option.splits)
qed

lemma register_failure_unchanged:
  "RegisterView_create E s body = (s', Inl e) \<Longrightarrow> s' = s"
  by (auto simp: RegisterView_create_def split: sum.splits)

lemma register_duplicate_username:
  assumes "map_of body ''username'' = Some un" "un \<in> set (map username (users s))"
  shows "\<exists>errors. RegisterView_create E s body = (s, Inl (ValidationError errors))
           \<and> (''username'', ''A user with that username already exists.'') \<in> set errors"
  using assms
  by (auto simp: RegisterView_create_def UserSerializer_is_valid_def Let_def
      unique_username_def split: sum.splits)

lemma register_missing_username:
  assumes "map_of body ''username'' = None"
  shows "\<exists>errors. RegisterView_create E s body = (s, Inl (ValidationError errors))
           \<and> (''username'', ''This field is required.'') \<in> set errors"
  using assms
  by (auto simp: RegisterView_create_def UserSerializer_is_valid_def Let_def
      required_field_def split: sum.splits)

lemma register_missing_password:
  assumes "map_of body ''password'' = None"
  shows "\<exists>errors. RegisterView_create E s body = (s, Inl (ValidationError errors))
           \<and> (''password'', ''This field is required.'') \<in> set errors"
  using assms
  by (auto simp: RegisterView_create_def UserSerializer_is_valid_def Let_def
      required_field_def split: sum.splits)

lemma register_missing_email:
  assumes "map_of body ''username'' = Some un" "user_field_errors E ''username'' un = []"
    "un \<notin> set (map username (users s))"
    "map_of body ''email'' = None"
    "map_of body ''password'' = Some pw" "user_field_errors E ''password'' pw = []"
  shows "RegisterView_create E s body = (s, Inl (KeyError ''email''))"
  using assms
  by (auto simp: RegisterView_create_def UserSerializer_is_valid_def Let_def
      required_field_def optional_field_def unique_username_def UserSerializer_create_def
      List.map_filter_simps split: sum.splits)

lemma register_twice:
  assumes "RegisterView_create E s body = (s', Inr r)" "map_of body' ''username'' = map_of body ''username''"
  shows "\<exists>errors. RegisterView_create E s' body' = (s', Inl (ValidationError errors))"
proof -
  from register_success[OF assms(1)] obtain un where
    "map_of body ''username'' = Some un" "un \<in> set (map username (users s'))"
    by auto
  then show ?thesis using register_duplicate_username[of body' un s' E] assms(2) by auto
qed



text \<open>
  C9, at the request without \<open>email\<close>: validation passes, since the field is optional on
  the model, and \<open>validated_data['email']\<close> raises \<open>KeyError\<close>: the client sees a 500,
  not a validation error.
\<close>

theorem register_without_email:
  "RegisterView_create env0 empty_store [(''username'', ''alice''), (''password'', ''pw'')]
     = (empty_store, Inl (KeyError ''email''))
   \<and> http_status (snd (RegisterView_create env0 empty_store
         [(''username'', ''alice''), (''password'', ''pw'')])) = 500"
  by (simp add: env0_def empty_store_def RegisterView_create_def UserSerializer_is_valid_def
      required_field_def optional_field_def unique_username_def UserSerializer_create_def
      List.map_filter_simps Let_def)

section \<open>Creating a mapping\<close>

lemma get_by_pk_None_iff:
  "get_by_pk pk_of rows key = None \<longleftrightarrow> (\<forall>r \<in> set rows. Some (pk_of r) \<noteq> key)"
  by (cases key) (auto simp: get_by_pk_def find_None_iff)

lemma get_by_pk_Some:
  "get_by_pk pk_of rows key = Some r \<Longrightarrow> r \<in> set rows \<and> key = Some (pk_of r)"
  by (cases key) (auto simp: get_by_pk_def find_Some_iff)


lemma related_field_found:
  "map_of body k = Some v \<or> (map_of body k = None \<and> v = PyNone) \<Longrightarrow> get_prep_value E v = Inr key \<Longrightarrow> get_by_pk pk_of rows key = Some r
     \<Longrightarrow> related_field E k pk_of rows body = Inr (pk_of r)"
  by (cases v) (auto simp: related_field_def get_by_pk_def split: option.splits)

lemma data_get_cases:
  "map_of body k = Some (data_get body k) \<or> (map_of body k = None \<and> data_get body k = PyNone)"
  by (auto simp: data_get_def split: option.splits)

text \<open>When the four checks pass, the serializer is valid too and the row is inserted.\<close>

lemma mapping_create_success:
  assumes "get_prep_value E (data_get body ''patient'') = Inr pk"
    and "get_by_pk p_id (patients s) pk = Some p" and "p_user p = u"
    and "get_prep_value E (data_get body ''doctor'') = Inr dk"
    and "get_by_pk d_id (doctors s) dk = Some d"
    and "\<not> mapping_exists s pk dk"
  shows "PatientDoctorMappingViewSet_create E s u now body
     = (s\<lparr>mappings := mappings s @ [\<lparr>m_id = seq_mapping s + 1, m_patient = p_id p,
                                       m_doctor = d_id d, assigned_date = now\<rparr>],
          seq_mapping := seq_mapping s + 1\<rparr>,
        Inr \<lparr>status = 201, data = MappingData \<lparr>m_id = seq_mapping s + 1, m_patient = p_id p,
                                       m_doctor = d_id d, assigned_date = now\<rparr>\<rparr>)"
proof -
  have "related_field E ''patient'' p_id (patients s) body = Inr (p_id p)"
    using related_field_found[OF data_get_cases assms(1,2)] .
  moreover have "related_field E ''doctor'' d_id (doctors s) body = Inr (d_id d)"
    using related_field_found[OF data_get_cases assms(4,5)] .
  ultimately show ?thesis
    using assms
    by (simp add: PatientDoctorMappingViewSet_create_def get_object_or_404_def
        CreateModelMixin_create_mapping_def PatientDoctorMappingSerializer_is_valid_def
        HTTP_201_CREATED_def Let_def)
qed

lemma mapping_create_changes:
  assumes "fst (PatientDoctorMappingViewSet_create E s u now body) \<noteq> s"
  shows "\<exists>pk dk p d. get_prep_value E (data_get body ''patient'') = Inr pk
            \<and> get_by_pk p_id (patients s) pk = Some p \<and> p_user p = u
            \<and> get_prep_value E (data_get body ''doctor'') = Inr dk
            \<and> get_by_pk d_id (doctors s) dk = Some d
            \<and> \<not> mapping_exists s pk dk"
  using assms
  by (auto simp: PatientDoctorMappingViewSet_create_def get_object_or_404_def Let_def
      split: sum.splits option.splits if_splits)



section \<open>Object lookup in an owner-scoped queryset\<close>

lemma find_filter_None:
  "(\<And>r. r \<in> set rows \<Longrightarrow> P r \<Longrightarrow> \<not> Q r) \<Longrightarrow> find P (filter Q rows) = None"
  by (auto simp: find_None_iff)

lemma patient_get_object_owned:
  "PatientViewSet_get_object E s u pk = Inr p
     \<Longrightarrow> p \<in> set (patients s) \<and> p_user p = u \<and> int_of E pk = Some (p_id p)"
  by (auto simp: PatientViewSet_get_object_def get_object_def PatientViewSet_get_queryset_def
      split: option.splits dest!: get_by_pk_Some)

lemma patient_get_object_not_owner:
  assumes "distinct (map p_id (patients s))" "p \<in> set (patients s)" "p_user p \<noteq> u"
    "int_of E pk = Some (p_id p)"
  shows "PatientViewSet_get_object E s u pk = Inl Http404"
proof -
  have "r = p" if "r \<in> set (patients s)" "p_id r = p_id p" for r
    using that assms(1,2) by (meson distinct_map inj_onD)
  then have "find (\<lambda>r. p_id r = p_id p) (filter (\<lambda>r. p_user r = u) (patients s)) = None"
    using assms(3) by (intro find_filter_None) auto
  then show ?thesis
    using assms(4)
    by (simp add: PatientViewSet_get_object_def get_object_def PatientViewSet_get_queryset_def
        get_by_pk_def)
qed

lemma patient_update_eq_super:
  "PatientViewSet_update E s u now pk partial body
     = UpdateModelMixin_update_patient E s u now pk partial body"
  by (auto simp: PatientViewSet_update_def UpdateModelMixin_update_patient_def
      split: sum.splits dest: patient_get_object_owned)

lemma http_status_Inl_not_403: "http_status (Inl e) \<noteq> 403"
  by (cases e) simp_all

lemma patient_update_never_403:
  "http_status (snd (PatientViewSet_update E s u now pk partial body)) \<noteq> 403"
  unfolding patient_update_eq_super
  by (auto simp: UpdateModelMixin_update_patient_def Let_def HTTP_200_OK_def
      http_status_Inl_not_403 split: sum.splits)

lemma patient_update_not_owner:
  assumes "distinct (map p_id (patients s))" "p \<in> set (patients s)" "p_user p \<noteq> u"
    "int_of E pk = Some (p_id p)"
  shows "PatientViewSet_update E s u now pk partial body = (s, Inl Http404)"
  using patient_get_object_not_owner[OF assms]
  by (simp add: PatientViewSet_update_def)

lemma mapping_get_object_owned:
  "PatientDoctorMappingViewSet_get_object E s u q pk = Inr m
     \<Longrightarrow> m \<in> set (mappings s) \<and> patient__user s m = Some u \<and> int_of E pk = Some (m_id m)"
  by (auto simp: PatientDoctorMappingViewSet_get_object_def get_object_def
      split: sum.splits option.splits dest!: get_by_pk_Some dest: get_queryset_scoped)

lemma mapping_destroy_eq_super:
  "PatientDoctorMappingViewSet_destroy E s u q pk
     = DestroyModelMixin_destroy_mapping E s u q pk"
  by (auto simp: PatientDoctorMappingViewSet_destroy_def DestroyModelMixin_destroy_mapping_def
      split: sum.splits dest: mapping_get_object_owned)

lemma mapping_destroy_never_403:
  "http_status (snd (PatientDoctorMappingViewSet_destroy E s u q pk)) \<noteq> 403"
  unfolding mapping_destroy_eq_super
  by (auto simp: DestroyModelMixin_destroy_mapping_def HTTP_204_NO_CONTENT_def
      http_status_Inl_not_403 split: sum.splits)

lemma mapping_get_object_not_owner:
  assumes "distinct (map p_id (patients s))" "distinct (map m_id (mappings s))"
    "m \<in> set (mappings s)" "p \<in> set (patients s)" "p_id p = m_patient m" "p_user p \<noteq> u"
    "int_of E pk = Some (m_id m)"
  shows "PatientDoctorMappingViewSet_get_object E s u q pk = Inl Http404
       \<or> PatientDoctorMappingViewSet_get_object E s u q pk = Inl ValueError"
    and "\<not> truthy q \<or> (\<exists>v n. q = Some v \<and> int_of E v = Some n)
       \<Longrightarrow> PatientDoctorMappingViewSet_get_object E s u q pk = Inl Http404"
proof -
  have owner: "patient__user s m \<noteq> Some u"
    using patient__user_iff[OF assms(1), of m u] assms(1,4,5,6)
    by (metis distinct_map inj_onD)
  have only: "r = m" if "r \<in> set (mappings s)" "m_id r = m_id m" for r
    using that assms(2,3) by (meson distinct_map inj_onD)
  have none: "find (\<lambda>r. m_id r = m_id m) ms = None"
    if "PatientDoctorMappingViewSet_get_queryset E s u q = Inr ms" for ms
    using get_queryset_scoped[OF that] only owner by (auto simp: find_None_iff)
  have err: "e = ValueError" if "PatientDoctorMappingViewSet_get_queryset E s u q = Inl e" for e
    using that
    by (auto simp: PatientDoctorMappingViewSet_get_queryset_def Let_def
        split: option.splits if_splits)
  show "PatientDoctorMappingViewSet_get_object E s u q pk = Inl Http404
       \<or> PatientDoctorMappingViewSet_get_object E s u q pk = Inl ValueError"
    using none err assms(7)
    by (auto simp: PatientDoctorMappingViewSet_get_object_def get_object_def get_by_pk_def
        split: sum.splits)
  assume "\<not> truthy q \<or> (\<exists>v n. q = Some v \<and> int_of E v = Some n)"
  then obtain ms where "PatientDoctorMappingViewSet_get_queryset E s u q = Inr ms"
    using get_queryset_falsy[of q E s u] get_queryset_numeric[of _ E _ s u]
    by (cases "truthy q") auto
  then show "PatientDoctorMappingViewSet_get_object E s u q pk = Inl Http404"
    using none assms(7)
    by (auto simp: PatientDoctorMappingViewSet_get_object_def get_object_def get_by_pk_def)
qed



lemmas handler_defs = PatientViewSet_update_def PatientViewSet_get_object_def
  PatientViewSet_get_queryset_def UpdateModelMixin_update_patient_def
  PatientDoctorMappingViewSet_destroy_def DestroyModelMixin_destroy_mapping_def
  PatientDoctorMappingViewSet_get_object_def PatientDoctorMappingViewSet_get_queryset_def
  get_object_def get_by_pk_def patient__user_def

section \<open>Requests on another user's rows\<close>







text \<open>
  C10. In \<open>PatientViewSet.update\<close> and \<open>PatientDoctorMappingViewSet.destroy\<close> the
  ownership check never answers: the object \<open>get_object\<close> returns is owned by the
  caller, each handler equals its \<open>super()\<close> call alone, no outcome has status 403, and a
  request on a row of another user's fails at the lookup with \<open>Http404\<close> (for the
  mapping view, with \<open>ValueError\<close> when the \<open>patient_id\<close> parameter is no number).
\<close>

theorem ownership_check_unreachable:
  "(\<forall>p. PatientViewSet_get_object E s u pk = Inr p \<longrightarrow> p_user p = u)
   \<and> PatientViewSet_update E s u now pk partial body
       = UpdateModelMixin_update_patient E s u now pk partial body
   \<and> http_status (snd (PatientViewSet_update E s u now pk partial body)) \<noteq> 403
   \<and> (\<forall>p. distinct (map p_id (patients s)) \<and> p \<in> set (patients s) \<and> p_user p \<noteq> u
          \<and> int_of E pk = Some (p_id p) \<longrightarrow>
          PatientViewSet_update E s u now pk partial body = (s, Inl Http404))
   \<and> (\<forall>m. PatientDoctorMappingViewSet_get_object E s u q mpk = Inr m \<longrightarrow>
          patient__user s m = Some u)
   \<and> PatientDoctorMappingViewSet_destroy E s u q mpk
       = DestroyModelMixin_destroy_mapping E s u q mpk
   \<and> http_status (snd (PatientDoctorMappingViewSet_destroy E s u q mpk)) \<noteq> 403
   \<and> (\<forall>m p. distinct (map p_id (patients s)) \<and> distinct (map m_id (mappings s))
          \<and> m \<in> set (mappings s) \<and> p \<in> set (patients s) \<and> p_id p = m_patient m
          \<and> p_user p \<noteq> u \<and> int_of E mpk = Some (m_id m) \<longrightarrow>
          (PatientDoctorMappingViewSet_destroy E s u q mpk = (s, Inl Http404)
           \<or> PatientDoctorMappingViewSet_destroy E s u q mpk = (s, Inl ValueError))
          \<and> (\<not> truthy q \<or> (\<exists>v n. q = Some v \<and> int_of E v = Some n) \<longrightarrow>
               PatientDoctorMappingViewSet_destroy E s u q mpk = (s, Inl Http404)))"
proof (intro conjI allI impI)
  fix p assume "PatientViewSet_get_object E s u pk = Inr p"
  then show "p_user p = u" by (simp add: patient_get_object_owned)
next
  show "PatientViewSet_update E s u now pk partial body
       = UpdateModelMixin_update_patient E s u now pk partial body"
    by (rule patient_update_eq_super)
next
  show "http_status (snd (PatientViewSet_update E s u now pk partial body)) \<noteq> 403"
    by (rule patient_update_never_403)
next
  fix p assume "distinct (map p_id (patients s)) \<and> p \<in> set (patients s) \<and> p_user p \<noteq> u
          \<and> int_of E pk = Some (p_id p)"
  then show "PatientViewSet_update E s u now pk partial body = (s, Inl Http404)"
    using patient_update_not_owner[of s p u E pk now partial body] by simp
next
  fix m assume "PatientDoctorMappingViewSet_get_object E s u q mpk = Inr m"
  then show "patient__user s m = Some u" by (simp add: mapping_get_object_owned)
next
  show "PatientDoctorMappingViewSet_destroy E s u q mpk
       = DestroyModelMixin_destroy_mapping E s u q mpk"
    by (rule mapping_destroy_eq_super)
next
  show "http_status (snd (PatientDoctorMappingViewSet_destroy E s u q mpk)) \<noteq> 403"
    by (rule mapping_destroy_never_403)
next
  fix m p
  assume h: "distinct (map p_id (patients s)) \<and> distinct (map m_id (mappings s))
          \<and> m \<in> set (mappings s) \<and> p \<in> set (patients s) \<and> p_id p = m_patient m
          \<and> p_user p \<noteq> u \<and> int_of E mpk = Some (m_id m)"
  then have g: "PatientDoctorMappingViewSet_get_object E s u q mpk = Inl Http404
       \<or> PatientDoctorMappingViewSet_get_object E s u q mpk = Inl ValueError"
    using mapping_get_object_not_owner(1)[of s m p u E mpk q] by simp
  then show "PatientDoctorMappingViewSet_destroy E s u q mpk = (s, Inl Http404)
           \<or> PatientDoctorMappingViewSet_destroy E s u q mpk = (s, Inl ValueError)"
    by (auto simp: PatientDoctorMappingViewSet_destroy_def)
  assume "\<not> truthy q \<or> (\<exists>v n. q = Some v \<and> int_of E v = Some n)"
  then have "PatientDoctorMappingViewSet_get_object E s u q mpk = Inl Http404"
    using h mapping_get_object_not_owner(2)[of s m p u E mpk q] by simp
  then show "PatientDoctorMappingViewSet_destroy E s u q mpk = (s, Inl Http404)"
    by (simp add: PatientDoctorMappingViewSet_destroy_def)
qed

theorem ownership_check_unreachable_witness:
  "PatientViewSet_get_object env0 store1 1 ''1'' = Inr patient1
   \<and> PatientViewSet_update env0 store1 2 20 ''1'' False [] = (store1, Inl Http404)
   \<and> PatientDoctorMappingViewSet_get_object env0 store1 1 None ''1'' = Inr mapping1
   \<and> PatientDoctorMappingViewSet_destroy env0 store1 2 None ''1'' = (store1, Inl Http404)
   \<and> PatientDoctorMappingViewSet_destroy env0 store1 2 (Some ''x'') ''1'' = (store1, Inl ValueError)"
  using ownership_check_unreachable[of env0 store1 2 "''1''" 20 False "[]" None "''1''"]
  by (simp add: example_defs handler_defs)

section \<open>The mapping table under every request\<close>
















section \<open>Primary keys in reachable states\<close>

lemma map_pk_save:
  "pk_of p = n \<Longrightarrow> map pk_of (map (\<lambda>r. if pk_of r = n then p else r) rows) = map pk_of rows"
  by (induction rows) auto

lemma pks_ok_filter:
  "pks_ok s \<Longrightarrow> pks_ok (s\<lparr>patients := filter P (patients s), mappings := filter Q (mappings s)\<rparr>)"
  by (auto simp: pks_ok_def distinct_map_filter)

lemma delete_patients_pks:
  "delete_patients E s ids = Inr s' \<Longrightarrow> pks_ok s \<Longrightarrow> pks_ok s'"
  by (auto simp: delete_patients_def pks_ok_def distinct_map_filter split: if_splits)

lemma delete_doctors_pks:
  "delete_doctors E s ids = Inr s' \<Longrightarrow> pks_ok s \<Longrightarrow> pks_ok s'"
  by (auto simp: delete_doctors_def pks_ok_def distinct_map_filter split: if_splits)

lemma delete_users_pks:
  "delete_users E s ids = Inr s' \<Longrightarrow> pks_ok s \<Longrightarrow> pks_ok s'"
proof -
  assume a: "delete_users E s ids = Inr s'" and ok: "pks_ok s"
  from a obtain pids s'' where d: "delete_patients E s pids = Inr s''"
    and "patients s' = patients s''" "mappings s' = mappings s''"
    "seq_patient s' = seq_patient s''" "seq_mapping s' = seq_mapping s''"
    by (auto simp: delete_users_def Let_def split: if_splits sum.splits)
  then show "pks_ok s'"
    using delete_patients_pks[OF d ok] by (simp add: pks_ok_def)
qed

lemma mapping_create_pks:
  "pks_ok s \<Longrightarrow> pks_ok (fst (PatientDoctorMappingViewSet_create E s u now body))"
proof (cases "fst (PatientDoctorMappingViewSet_create E s u now body) = s")
  case False
  assume ok: "pks_ok s"
  from mapping_create_changes[OF False] obtain pk dk p d where
    h: "get_prep_value E (data_get body ''patient'') = Inr pk"
    "get_by_pk p_id (patients s) pk = Some p" "p_user p = u"
    "get_prep_value E (data_get body ''doctor'') = Inr dk"
    "get_by_pk d_id (doctors s) dk = Some d" "\<not> mapping_exists s pk dk"
    by blast
  show ?thesis
    unfolding mapping_create_success[OF h] using ok by (fastforce simp: pks_ok_def)
qed simp

lemma handle_preserves_pks:
  assumes "pks_ok s"
  shows "pks_ok (fst (handle E s r))"
proof (cases r)
  case (Register b)
  then show ?thesis using assms
    by (auto simp: RegisterView_create_def UserSerializer_create_def create_user_def Let_def
        pks_ok_def split: sum.splits option.splits)
next
  case (UserUpdate c pk partial b)
  then show ?thesis using assms
    by (auto simp: UserViewSet_update_def Let_def pks_ok_def split: sum.splits)
next
  case (UserDestroy c pk)
  then show ?thesis using assms
    by (auto simp: UserViewSet_destroy_def split: sum.splits dest: delete_users_pks)
next
  case (PatientList c)
  then show ?thesis using assms by (simp add: PatientViewSet_list_def)
next
  case (UserList c)
  then show ?thesis using assms by (simp add: UserViewSet_list_def)
next
  case (UserRetrieve c pk)
  then show ?thesis using assms by (auto simp: UserViewSet_retrieve_def split: sum.splits)
next
  case (PatientRetrieve c pk)
  then show ?thesis using assms by (auto simp: PatientViewSet_retrieve_def split: sum.splits)
next
  case DoctorList
  then show ?thesis using assms by (simp add: DoctorViewSet_list_def)
next
  case (DoctorRetrieve pk)
  then show ?thesis using assms by (auto simp: DoctorViewSet_retrieve_def split: sum.splits)
next
  case (PatientCreate c now b)
  then show ?thesis using assms
    by (fastforce simp: PatientViewSet_create_def PatientViewSet_perform_create_def Let_def
        pks_ok_def split: sum.splits)
next
  case (PatientUpdate c now pk partial b)
  have "pks_ok (save_patient s p)" if "p_id p = p_id q" "q \<in> set (patients s)" for p q
  proof -
    have "map p_id (patients (save_patient s p)) = map p_id (patients s)"
      using map_pk_save[of p_id p "p_id p" "patients s"] by (simp add: save_patient_def)
    moreover have "\<forall>r \<in> set (patients (save_patient s p)). p_id r \<le> seq_patient s"
      using assms that by (auto simp: save_patient_def pks_ok_def)
    ultimately show ?thesis
      using assms by (simp add: pks_ok_def) (simp add: save_patient_def)
  qed
  then show ?thesis using assms PatientUpdate
    by (auto simp: patient_update_eq_super UpdateModelMixin_update_patient_def
        Let_def split: sum.splits dest!: patient_get_object_owned)
next
  case (PatientDestroy c pk)
  then show ?thesis using assms
    by (auto simp: PatientViewSet_destroy_def split: sum.splits dest: delete_patients_pks)
next
  case (DoctorCreate now b)
  then show ?thesis using assms
    by (auto simp: DoctorViewSet_create_def DoctorViewSet_perform_create_def Let_def
        pks_ok_def split: sum.splits option.splits)
next
  case (DoctorUpdate now pk partial b)
  then show ?thesis using assms
    by (auto simp: DoctorViewSet_update_def save_doctor_def Let_def pks_ok_def split: sum.splits)
next
  case (DoctorDestroy pk)
  then show ?thesis using assms
    by (auto simp: DoctorViewSet_destroy_def split: sum.splits dest: delete_doctors_pks)
next
  case (MappingList c q)
  then show ?thesis using assms
    by (auto simp: PatientDoctorMappingViewSet_list_def split: sum.splits)
next
  case (MappingCreate c now b)
  then show ?thesis using mapping_create_pks[OF assms] by simp
next
  case (MappingDestroy c q pk)
  then show ?thesis using assms
    by (auto simp: mapping_destroy_eq_super DestroyModelMixin_destroy_mapping_def
        pks_ok_def distinct_map_filter split: sum.splits)
qed

text \<open>
  In every reachable state the primary keys of the patient and the mapping table are
  distinct: the hypothesis of the statements about a request on one row.
\<close>

lemma reachable_pks_ok: "reachable E s \<Longrightarrow> pks_ok s"
proof (induction rule: reachable.induct)
  case initial
  show ?case by (simp add: pks_ok_def empty_store_def)
next
  case (step s r)
  then show ?case by (simp add: handle_preserves_pks)
qed

lemma reachable_distinct_pks:
  "reachable E s \<Longrightarrow> distinct (map p_id (patients s)) \<and> distinct (map m_id (mappings s))"
  using reachable_pks_ok[of E s] by (simp add: pks_ok_def)

end
